(* ===== verification/Prelude.thy ===== *)
theory Prelude
  imports Main "HOL-Library.Sublist"
begin

text \<open>
  Shared vocabulary of the development. The process environment of Python
  (\<open>os.environ\<close>) maps variable names to values, both \<open>str\<close>; it is a partial map
  \<open>env\<close> of HOL strings. Python's truth test \<open>not s\<close> on a \<open>str\<close> is emptiness,
  so a field is "set" exactly when it is a non-empty string. The helper
  \<open>split_at\<close> cuts a string at the first occurrence of a delimiter; it is the
  building block of the URL reader that the connection-string theory states its
  round trip against. The lemmas here are the generic facts on \<open>split_at\<close> that
  the reader's proofs share.
\<close>

type_synonym env = "string \<rightharpoonup> string"

named_theorems config_simps "characteristic equations of the configuration model"

fun split_at :: "char \<Rightarrow> string \<Rightarrow> (string \<times> string) option" where
  "split_at d [] = None"
| "split_at d (x # xs) =
     (if x = d then Some ([], xs) else map_option (\<lambda>(a, b). (x # a, b)) (split_at d xs))"

lemma split_at_append [simp]:
  "d \<notin> set xs \<Longrightarrow> split_at d (xs @ d # ys) = Some (xs, ys)"
  by (induction xs) auto

lemma split_at_SomeD:
  "split_at d s = Some (a, b) \<Longrightarrow> s = a @ d # b \<and> d \<notin> set a"
  by (induction s arbitrary: a) (auto split: if_splits)

lemma find_eq_filter_hd:
  "find P xs = (case filter P xs of [] \<Rightarrow> None | x # _ \<Rightarrow> Some x)"
  by (induction xs) auto

end
