(* ===== verification/Environ.thy ===== *)
theory Environ
  imports Prelude
begin

text \<open>
  The process environment and the two library calls of \<open>src/config/db_config.py\<close>
  that touch it: \<open>os.getenv(key, default)\<close> (lines 25--29) and the module-level
  \<open>load_dotenv()\<close> of python-dotenv (line 14). Neither library is part of the
  repository; both are modelled from their documented behaviour. \<open>load_dotenv\<close>
  reads the \<open>.env\<close> file into an ordered dictionary (a later duplicate key
  replaces the value of an earlier one; a line without \<open>=\<close> has the value
  \<open>None\<close>), returns \<open>False\<close> when that dictionary is empty, and otherwise writes
  each key that is not yet in \<open>os.environ\<close> and has a value (\<open>override=False\<close>,
  the default). A missing \<open>.env\<close> file reads as no entries. The lemmas show that
  the dictionary keeps the last value of a duplicate key and that the loader never
  overrides a variable that is already set.
\<close>

type_synonym dotenv_entry = "string \<times> string option"

definition getenv :: "env \<Rightarrow> string \<Rightarrow> string \<Rightarrow> string" where
  "getenv e key dflt = (case e key of None \<Rightarrow> dflt | Some v \<Rightarrow> v)"

definition dotenv_dict :: "dotenv_entry list \<Rightarrow> string \<rightharpoonup> string option" where
  "dotenv_dict entries = foldl (\<lambda>m (k, v). m(k \<mapsto> v)) Map.empty entries"

definition load_dotenv :: "env \<Rightarrow> dotenv_entry list \<Rightarrow> env \<times> bool" where
  "load_dotenv e entries =
     (if entries = [] then (e, False)
      else (let d = dotenv_dict entries in
            ((\<lambda>k. case e k of
                    Some v \<Rightarrow> Some v
                  | None \<Rightarrow> (case d k of Some (Some v) \<Rightarrow> Some v | _ \<Rightarrow> None)), True)))"

lemma getenv_Some [simp, config_simps]: "e key = Some v \<Longrightarrow> getenv e key d = v"
  by (simp add: getenv_def)

lemma getenv_None [simp, config_simps]: "e key = None \<Longrightarrow> getenv e key d = d"
  by (simp add: getenv_def)

lemma getenv_upd [simp]: "getenv (e(k \<mapsto> v)) key d = (if key = k then v else getenv e key d)"
  by (simp add: getenv_def)

lemma getenv_in_ran: "getenv e key d \<in> insert d (ran e)"
  by (auto simp: getenv_def ran_def split: option.splits)

lemma foldl_upd_map_of:
  "foldl (\<lambda>m (k, v). m(k \<mapsto> v)) m0 es = m0 ++ map_of (rev es)"
  by (induction es arbitrary: m0) (auto simp: map_add_def fun_eq_iff split: option.splits)

lemma dotenv_dict_last_wins: "dotenv_dict entries = map_of (rev entries)"
  by (simp add: dotenv_dict_def foldl_upd_map_of)

lemma load_dotenv_env:
  "fst (load_dotenv e entries) k =
     (case e k of Some v \<Rightarrow> Some v
      | None \<Rightarrow> (case map_of (rev entries) k of Some (Some v) \<Rightarrow> Some v | _ \<Rightarrow> None))"
  by (cases "entries = []") (auto simp: load_dotenv_def dotenv_dict_last_wins split: option.splits)

text \<open>C9: the loader never overrides a variable that is already in the environment.\<close>

theorem load_dotenv_no_override:
  "e k = Some v \<Longrightarrow> fst (load_dotenv e entries) k = Some v"
  by (simp add: load_dotenv_def Let_def)

theorem load_dotenv_no_override_witness:
  "[''DB_HOST'' \<mapsto> ''db.internal''] ''DB_HOST'' = Some ''db.internal''
   \<and> fst (load_dotenv [''DB_HOST'' \<mapsto> ''db.internal''] [(''DB_HOST'', Some ''localhost'')]) ''DB_HOST''
     = Some ''db.internal''"
  using load_dotenv_no_override [of "[''DB_HOST'' \<mapsto> ''db.internal'']" "''DB_HOST''"
      "''db.internal''" "[(''DB_HOST'', Some ''localhost'')]"]
  by simp

end
