(* ===== verification/DbConfig.thy ===== *)
theory DbConfig
  imports Environ
begin

text \<open>
  \<open>get_db_config()\<close> (\<open>src/config/db_config.py\<close>, lines 17--30) reads five variables
  with \<open>os.getenv\<close> and returns a dictionary with the fixed keys \<open>'username'\<close>,
  \<open>'password'\<close>, \<open>'host'\<close>, \<open>'port'\<close> and \<open>'database'\<close>. The dictionary is only
  ever read at these literal keys, so it is the record \<open>db_config\<close>; every field
  is a string, the port included (no conversion to a number). The reference
  \<open>config_table\<close> is the spec's own description of the policy, an ordered table of
  (variable, default) pairs; the lemmas show that the code's five inline calls
  implement that table, that the record depends on the five variables only, and
  that the password field is empty exactly when \<open>DB_PASSWORD\<close> is absent or set
  to the empty string (a present variable wins over its default even when empty).
\<close>

record db_config =
  username :: string
  password :: string
  host :: string
  port :: string
  database :: string

definition get_db_config :: "env \<Rightarrow> db_config" where
  "get_db_config e =
     \<lparr>username = getenv e ''DB_USERNAME'' ''postgres'',
      password = getenv e ''DB_PASSWORD'' '''',
      host = getenv e ''DB_HOST'' ''localhost'',
      port = getenv e ''DB_PORT'' ''5432'',
      database = getenv e ''DB_NAME'' ''customer_behavior''\<rparr>"

definition config_table :: "(string \<times> string) list" where
  "config_table =
     [(''DB_USERNAME'', ''postgres''), (''DB_PASSWORD'', ''''), (''DB_HOST'', ''localhost''),
      (''DB_PORT'', ''5432''), (''DB_NAME'', ''customer_behavior'')]"

definition config_fields :: "db_config \<Rightarrow> string list" where
  "config_fields c = [username c, password c, host c, port c, database c]"

definition config_keys :: "string list" where
  "config_keys = map fst config_table"

lemma get_db_config_sel [config_simps]:
  "username (get_db_config e) = getenv e ''DB_USERNAME'' ''postgres''"
  "password (get_db_config e) = getenv e ''DB_PASSWORD'' ''''"
  "host (get_db_config e) = getenv e ''DB_HOST'' ''localhost''"
  "port (get_db_config e) = getenv e ''DB_PORT'' ''5432''"
  "database (get_db_config e) = getenv e ''DB_NAME'' ''customer_behavior''"
  by (simp_all add: get_db_config_def)

lemma password_empty_iff:
  "password (get_db_config e) = '''' \<longleftrightarrow> e ''DB_PASSWORD'' = None \<or> e ''DB_PASSWORD'' = Some ''''"
  by (simp add: get_db_config_sel getenv_def split: option.splits)

text \<open>C7: the five inline \<open>os.getenv\<close> calls read exactly the spec's table of
  (variable, default) pairs, in its order.\<close>

theorem get_db_config_table:
  "config_fields (get_db_config e) = map (\<lambda>(k, d). getenv e k d) config_table"
  by (simp add: config_fields_def config_table_def get_db_config_def)

text \<open>C8: the record depends on the five configuration variables only: two
  environments that agree on them give the same record.\<close>

theorem get_db_config_frame:
  "\<forall>k \<in> set config_keys. e k = e' k \<Longrightarrow> get_db_config e = get_db_config e'"
  by (simp add: config_keys_def config_table_def get_db_config_def getenv_def)

theorem get_db_config_frame_witness:
  "list_all (\<lambda>k. [''DB_HOST'' \<mapsto> ''h'', ''PATH'' \<mapsto> ''/bin''] k = [''DB_HOST'' \<mapsto> ''h''] k) config_keys
   \<and> get_db_config [''DB_HOST'' \<mapsto> ''h'', ''PATH'' \<mapsto> ''/bin''] = get_db_config [''DB_HOST'' \<mapsto> ''h'']"
proof -
  have h: "\<forall>k \<in> set config_keys.
      [''DB_HOST'' \<mapsto> ''h'', ''PATH'' \<mapsto> ''/bin''] k = [''DB_HOST'' \<mapsto> ''h''] k"
    by (simp add: config_keys_def config_table_def)
  have l: "list_all (\<lambda>k. [''DB_HOST'' \<mapsto> ''h'', ''PATH'' \<mapsto> ''/bin''] k = [''DB_HOST'' \<mapsto> ''h''] k)
      config_keys"
    by (simp add: config_keys_def config_table_def)
  show ?thesis by (rule conjI [OF l get_db_config_frame [OF h]])
qed

text \<open>C27: every field of the record is a string taken from the environment or
  one of the documented defaults; the function invents no value.\<close>

theorem get_db_config_values:
  "set (config_fields (get_db_config e)) \<subseteq> ran e \<union> snd ` set config_table"
  using getenv_in_ran [of e] by (auto simp: config_fields_def config_table_def get_db_config_def)

end
