(* ===== verification/Validate.thy ===== *)
theory Validate
  imports DbConfig
begin

text \<open>
  \<open>validate_db_config()\<close> (\<open>src/config/db_config.py\<close>, lines 54--71) reads the
  record and returns the pair \<open>(is_valid, message)\<close> from the first of three checks
  that fails (password, then username, then database name), or
  \<open>(True, 'Configuration is valid')\<close>. It never raises. The reference
  \<open>validate_spec\<close> states the contract as the spec words it: an ordered table of the
  required fields, and the report of the first one that is empty. The lemmas show
  that the chain of early returns implements the table, which messages can come
  back, and that the username and database checks can only fail when the variable
  is present in the environment with an empty value, since their defaults are not
  empty.
\<close>

definition validate_db_config :: "env \<Rightarrow> bool \<times> string" where
  "validate_db_config e =
     (let config = get_db_config e in
      if password config = '''' then (False, ''DB_PASSWORD is not set in environment variables'')
      else if username config = '''' then (False, ''DB_USERNAME is not set in environment variables'')
      else if database config = '''' then (False, ''DB_NAME is not set in environment variables'')
      else (True, ''Configuration is valid''))"

definition required_fields :: "(string \<times> (db_config \<Rightarrow> string)) list" where
  "required_fields = [(''DB_PASSWORD'', password), (''DB_USERNAME'', username), (''DB_NAME'', database)]"

definition missing_fields :: "db_config \<Rightarrow> string list" where
  "missing_fields c = [k. (k, f) \<leftarrow> required_fields, f c = '''']"

definition validate_spec :: "db_config \<Rightarrow> bool \<times> string" where
  "validate_spec c =
     (case missing_fields c of
        [] \<Rightarrow> (True, ''Configuration is valid'')
      | k # _ \<Rightarrow> (False, k @ '' is not set in environment variables''))"

definition validate_messages :: "string list" where
  "validate_messages =
     [''DB_PASSWORD is not set in environment variables'',
      ''DB_USERNAME is not set in environment variables'',
      ''DB_NAME is not set in environment variables'',
      ''Configuration is valid'']"

lemma validate_db_config_cases [config_simps]:
  "validate_db_config e =
     (if password (get_db_config e) = '''' then (False, ''DB_PASSWORD is not set in environment variables'')
      else if username (get_db_config e) = '''' then (False, ''DB_USERNAME is not set in environment variables'')
      else if database (get_db_config e) = '''' then (False, ''DB_NAME is not set in environment variables'')
      else (True, ''Configuration is valid''))"
  by (simp add: validate_db_config_def Let_def)

lemma default_nonempty [simp]:
  "getenv e ''DB_USERNAME'' ''postgres'' = '''' \<longleftrightarrow> e ''DB_USERNAME'' = Some ''''"
  "getenv e ''DB_NAME'' ''customer_behavior'' = '''' \<longleftrightarrow> e ''DB_NAME'' = Some ''''"
  by (simp_all add: getenv_def split: option.splits)

text \<open>C3: the chain of early returns reports the first empty field of the spec's
  ordered table of required fields, and success when there is none.\<close>

theorem validate_db_config_refines:
  "validate_db_config e = validate_spec (get_db_config e)"
  by (simp add: validate_db_config_def Let_def validate_spec_def missing_fields_def
                required_fields_def)

text \<open>C18: the result is valid exactly when password, username and database name are
  all non-empty; the flag is true exactly when the message is the success message, and
  the message is one of the four the code writes.\<close>

theorem validate_db_config_result:
  "(fst (validate_db_config e) \<longleftrightarrow>
      password (get_db_config e) \<noteq> '''' \<and> username (get_db_config e) \<noteq> ''''
      \<and> database (get_db_config e) \<noteq> '''')
   \<and> (fst (validate_db_config e) \<longleftrightarrow> snd (validate_db_config e) = ''Configuration is valid'')
   \<and> snd (validate_db_config e) \<in> set validate_messages"
  by (simp add: validate_db_config_cases validate_messages_def)

text \<open>C17: the password is checked first: whenever it is missing, the report names
  \<open>DB_PASSWORD\<close>, whatever the other fields hold.\<close>

theorem validate_password_first:
  "password (get_db_config e) = '''' \<Longrightarrow>
     validate_db_config e = (False, ''DB_PASSWORD is not set in environment variables'')"
  by (simp add: validate_db_config_cases)

theorem validate_password_first_witness:
  "password (get_db_config [''DB_USERNAME'' \<mapsto> '''']) = ''''
   \<and> validate_db_config [''DB_USERNAME'' \<mapsto> '''']
     = (False, ''DB_PASSWORD is not set in environment variables'')"
proof -
  have h: "password (get_db_config [''DB_USERNAME'' \<mapsto> '''']) = ''''"
    by (simp add: get_db_config_sel)
  show ?thesis using h validate_password_first [OF h] by simp
qed

text \<open>C22: the username and database checks fail only for a variable that is present
  in the environment with an empty value; an absent one falls back to its non-empty
  default.\<close>

theorem validate_username_dbname_need_empty_var:
  "(snd (validate_db_config e) = ''DB_USERNAME is not set in environment variables''
      \<longrightarrow> e ''DB_USERNAME'' = Some '''')
   \<and> (snd (validate_db_config e) = ''DB_NAME is not set in environment variables''
      \<longrightarrow> e ''DB_NAME'' = Some '''')"
  by (simp add: validate_db_config_cases get_db_config_sel)

theorem validate_username_dbname_need_empty_var_witness:
  "snd (validate_db_config [''DB_PASSWORD'' \<mapsto> ''pw'', ''DB_USERNAME'' \<mapsto> ''''])
     = ''DB_USERNAME is not set in environment variables''
   \<and> [''DB_PASSWORD'' \<mapsto> ''pw'', ''DB_USERNAME'' \<mapsto> ''''] ''DB_USERNAME'' = Some ''''"
  using validate_username_dbname_need_empty_var [of "[''DB_PASSWORD'' \<mapsto> ''pw'', ''DB_USERNAME'' \<mapsto> '''']"]
  by (simp add: validate_db_config_cases get_db_config_sel)

text \<open>C16: in terms of the environment, the configuration is valid exactly when
  \<open>DB_PASSWORD\<close> is set to a non-empty value and neither \<open>DB_USERNAME\<close> nor
  \<open>DB_NAME\<close> is set to the empty string.\<close>

theorem validate_db_config_env_iff:
  "fst (validate_db_config e) \<longleftrightarrow>
     e ''DB_PASSWORD'' \<noteq> None \<and> e ''DB_PASSWORD'' \<noteq> Some ''''
     \<and> e ''DB_USERNAME'' \<noteq> Some '''' \<and> e ''DB_NAME'' \<noteq> Some ''''"
  by (auto simp: validate_db_config_cases get_db_config_sel getenv_def split: option.splits)

end
