(* ===== verification/Reachability.thy ===== *)
theory Reachability
  imports Process
begin

text \<open>
  The process of \<open>Process\<close> restricted to a script that imports the package and
  calls it without writing variables itself: \<open>quiet_from s0\<close> is the inductive
  relation of the states it reaches from \<open>s0\<close> by imports and calls. The lemma
  shows, by rule induction over the relation, what the environment of such a
  process is: the initial one before the first import and the initial one
  completed by the \<open>.env\<close> file after it.
\<close>

inductive quiet_from :: "proc \<Rightarrow> proc \<Rightarrow> bool" for s0 :: proc where
  quiet_start: "quiet_from s0 s0"
| quiet_step: "quiet_from s0 s \<Longrightarrow> ev = ImportModule \<or> is_call ev \<Longrightarrow> quiet_from s0 (fst (step s ev))"

text \<open>C15: in a process whose callers only import and call, the environment is the
  initial one until the first import and the initial one completed by the \<open>.env\<close>
  file from then on.\<close>

theorem quiet_from_environ:
  "quiet_from s0 s \<Longrightarrow> \<not> imported s0 \<Longrightarrow>
     dotenv_file s = dotenv_file s0
     \<and> environ s = (if imported s then fst (load_dotenv (environ s0) (dotenv_file s0)) else environ s0)"
proof (induction rule: quiet_from.induct)
  case quiet_start
  then show ?case by simp
next
  case (quiet_step s ev)
  then have "fst (step s ev) = import_module s"
    by (cases ev) (simp_all add: Let_def)
  with quiet_step show ?case
    by (simp add: import_module_environ)
qed

theorem quiet_from_environ_witness:
  "quiet_from \<lparr>environ = Map.empty, dotenv_file = [(''DB_PASSWORD'', Some ''pw'')], imported = False\<rparr>
     (fst (step \<lparr>environ = Map.empty, dotenv_file = [(''DB_PASSWORD'', Some ''pw'')], imported = False\<rparr>
        CallGetConfig))
   \<and> \<not> imported \<lparr>environ = Map.empty, dotenv_file = [(''DB_PASSWORD'', Some ''pw'')], imported = False\<rparr>
   \<and> environ (fst (step \<lparr>environ = Map.empty, dotenv_file = [(''DB_PASSWORD'', Some ''pw'')],
                           imported = False\<rparr> CallGetConfig))
     = [''DB_PASSWORD'' \<mapsto> ''pw'']"
proof -
  let ?s0 = "\<lparr>environ = Map.empty, dotenv_file = [(''DB_PASSWORD'', Some ''pw'')], imported = False\<rparr>"
  have q: "quiet_from ?s0 (fst (step ?s0 CallGetConfig))"
    by (rule quiet_step [OF quiet_start]) simp
  have n: "\<not> imported ?s0" by simp
  have "environ (fst (step ?s0 CallGetConfig))
     = (if imported (fst (step ?s0 CallGetConfig)) then fst (load_dotenv (environ ?s0) (dotenv_file ?s0))
        else environ ?s0)"
    using quiet_from_environ [OF q n] by blast
  then have "environ (fst (step ?s0 CallGetConfig)) = [''DB_PASSWORD'' \<mapsto> ''pw'']"
    by (simp add: Let_def load_dotenv_env fun_eq_iff)
  with q n show ?thesis by blast
qed

end
