(* ===== verification/Provider.thy ===== *)
theory Provider
  imports Process
begin

text \<open>
  The contract of the package as the spec states it, and the proof that the module
  meets it. The spec's ConfigProvider has no state of its own: every retrieval reads
  the current process environment and builds its answer afresh (nothing is cached),
  and the \<open>.env\<close> loader is a collaborator that runs once, at process start.
  \<open>provider_step\<close> is that contract over an environment alone: caller writes
  change the environment, the three calls answer from it, an import does nothing.
  The refinement theorem shows that the module of \<open>Process\<close>, once imported,
  is this provider: every run from an imported process has the provider's outputs,
  and its environment is the provider's. The ordering theorem shows where the two
  differ before the import: because the loader runs once, a variable the caller
  sets before the import beats the \<open>.env\<close> file, a variable the caller removes
  before the import is filled in again from the file, and one removed after the
  import stays removed. The error theorem lifts the builder's password check to
  whole runs: with no non-empty password anywhere, every call of the builder fails;
  the recovery theorem shows the converse a caller can rely on, that setting a
  non-empty password from any state makes the next call of the builder succeed.
\<close>

fun provider_step :: "env \<Rightarrow> event \<Rightarrow> env \<times> call_result" where
  "provider_step e ImportModule = (e, NoOutput)"
| "provider_step e (SetVar k v) = (e(k \<mapsto> v), NoOutput)"
| "provider_step e (UnsetVar k) = (e(k := None), NoOutput)"
| "provider_step e CallGetConfig = (e, ConfigOut (get_db_config e))"
| "provider_step e CallConnString = (e, ConnStringOut (get_db_connection_string e))"
| "provider_step e CallValidate = (e, ValidateOut (validate_db_config e))"

fun provider_run :: "env \<Rightarrow> event list \<Rightarrow> env \<times> call_result list" where
  "provider_run e [] = (e, [])"
| "provider_run e (ev # evs) =
     (let (e1, out) = provider_step e ev; (e2, outs) = provider_run e1 evs in (e2, out # outs))"

definition abs_proc :: "proc \<Rightarrow> env" where
  "abs_proc s = environ s"

lemma step_keeps_no_password:
  assumes env: "\<forall>v. environ s ''DB_PASSWORD'' = Some v \<longrightarrow> v = ''''"
    and dot: "\<forall>v. (''DB_PASSWORD'', Some v) \<in> set (dotenv_file s) \<longrightarrow> v = ''''"
    and ev: "\<And>v. ev = SetVar ''DB_PASSWORD'' v \<Longrightarrow> v = ''''"
  shows "\<forall>v. environ (fst (step s ev)) ''DB_PASSWORD'' = Some v \<longrightarrow> v = ''''"
proof (intro allI impI)
  fix v
  assume "environ (fst (step s ev)) ''DB_PASSWORD'' = Some v"
  then have "environ s ''DB_PASSWORD'' = Some v \<or> (''DB_PASSWORD'', Some v) \<in> set (dotenv_file s)
      \<or> ev = SetVar ''DB_PASSWORD'' v"
    by (rule step_value_source)
  then show "v = ''''"
    using env dot ev by metis
qed

lemma import_module_no_password:
  assumes env: "\<forall>v. environ s ''DB_PASSWORD'' = Some v \<longrightarrow> v = ''''"
    and dot: "\<forall>v. (''DB_PASSWORD'', Some v) \<in> set (dotenv_file s) \<longrightarrow> v = ''''"
  shows "password (get_db_config (environ (import_module s))) = ''''"
proof -
  have "\<forall>v. environ (fst (step s ImportModule)) ''DB_PASSWORD'' = Some v \<longrightarrow> v = ''''"
    by (rule step_keeps_no_password [OF env dot]) simp
  then have "\<forall>v. environ (import_module s) ''DB_PASSWORD'' = Some v \<longrightarrow> v = ''''"
    by simp
  then show ?thesis
    by (cases "environ (import_module s) ''DB_PASSWORD''") (simp_all add: password_empty_iff)
qed

lemma import_module_set_commute:
  "environ (import_module (s\<lparr>environ := (environ s)(k \<mapsto> v)\<rparr>)) = (environ (import_module s))(k \<mapsto> v)"
  by (rule ext) (simp add: import_module_environ load_dotenv_env split: option.splits)

text \<open>C29: once imported, the module is the spec's stateless provider: every run
  of caller writes, imports and calls from an imported process gives the outputs
  and the environment of the provider started on the process environment.\<close>

theorem run_refines_provider:
  "imported s \<Longrightarrow> map_prod abs_proc id (run s evs) = provider_run (abs_proc s) evs"
proof (induction evs arbitrary: s)
  case Nil
  then show ?case by simp
next
  case (Cons ev evs)
  obtain s1 out where st: "step s ev = (s1, out)" by fastforce
  have "map_prod abs_proc id (step s ev) = provider_step (abs_proc s) ev \<and> imported (fst (step s ev))"
    using Cons.prems by (cases ev) (simp_all add: Let_def abs_proc_def import_module_def)
  then have ps: "provider_step (abs_proc s) ev = (abs_proc s1, out)" and i1: "imported s1"
    using st by simp_all
  from i1 have "map_prod abs_proc id (run s1 evs) = provider_run (abs_proc s1) evs"
    by (rule Cons.IH)
  moreover obtain s2 outs where "run s1 evs = (s2, outs)" by fastforce
  ultimately show ?case
    using ps by (simp add: st) (metis case_prod_conv)
qed

theorem run_refines_provider_witness:
  "imported \<lparr>environ = [''DB_PASSWORD'' \<mapsto> ''pw''], dotenv_file = [(''DB_NAME'', Some ''shop'')],
             imported = True\<rparr>
   \<and> snd (run \<lparr>environ = [''DB_PASSWORD'' \<mapsto> ''pw''], dotenv_file = [(''DB_NAME'', Some ''shop'')],
                imported = True\<rparr> [UnsetVar ''DB_PASSWORD'', CallConnString])
     = [NoOutput, ConnStringOut (Inl (ValueError
         ''Database password not set. Please set DB_PASSWORD in .env file.''))]"
proof -
  let ?s = "\<lparr>environ = [''DB_PASSWORD'' \<mapsto> ''pw''], dotenv_file = [(''DB_NAME'', Some ''shop'')],
             imported = True\<rparr>"
  have h: "imported ?s" by simp
  have "snd (map_prod abs_proc id (run ?s [UnsetVar ''DB_PASSWORD'', CallConnString]))
      = snd (provider_run (abs_proc ?s) [UnsetVar ''DB_PASSWORD'', CallConnString])"
    by (simp only: run_refines_provider [OF h])
  then have "snd (run ?s [UnsetVar ''DB_PASSWORD'', CallConnString])
      = [NoOutput, ConnStringOut (Inl (ValueError
         ''Database password not set. Please set DB_PASSWORD in .env file.''))]"
    by (simp add: abs_proc_def get_db_connection_string_def get_db_config_def)
  with h show ?thesis by blast
qed

text \<open>C30: the order of a caller's write and the first import decides what the
  calls see. A variable that is also in the \<open>.env\<close> file keeps the caller's value
  when set before the import; when removed before the import the file's value
  fills it in; when removed after the import it stays removed for later calls.\<close>

theorem import_order_matters:
  "\<not> imported s \<Longrightarrow> map_of (rev (dotenv_file s)) k = Some (Some d) \<Longrightarrow>
     environ (fst (run s [SetVar k v, ImportModule])) k = Some v
     \<and> environ (fst (run s [UnsetVar k, ImportModule])) k = Some d
     \<and> environ (fst (run s [ImportModule, UnsetVar k, CallGetConfig])) k = None"
  by (simp add: Let_def import_module_def load_dotenv_env)

theorem import_order_matters_witness:
  "\<not> imported \<lparr>environ = Map.empty, dotenv_file = [(''DB_HOST'', Some ''db'')], imported = False\<rparr>
   \<and> map_of (rev [(''DB_HOST'', Some ''db'')]) ''DB_HOST'' = Some (Some ''db'')
   \<and> environ (fst (run \<lparr>environ = Map.empty, dotenv_file = [(''DB_HOST'', Some ''db'')],
                         imported = False\<rparr> [SetVar ''DB_HOST'' ''prod'', ImportModule])) ''DB_HOST''
       = Some ''prod''
   \<and> environ (fst (run \<lparr>environ = Map.empty, dotenv_file = [(''DB_HOST'', Some ''db'')],
                         imported = False\<rparr> [UnsetVar ''DB_HOST'', ImportModule])) ''DB_HOST''
       = Some ''db''
   \<and> environ (fst (run \<lparr>environ = Map.empty, dotenv_file = [(''DB_HOST'', Some ''db'')],
                         imported = False\<rparr> [ImportModule, UnsetVar ''DB_HOST'', CallGetConfig]))
       ''DB_HOST'' = None"
proof -
  let ?s = "\<lparr>environ = Map.empty, dotenv_file = [(''DB_HOST'', Some ''db'')], imported = False\<rparr>"
  have h1: "\<not> imported ?s" by simp
  have h2: "map_of (rev (dotenv_file ?s)) ''DB_HOST'' = Some (Some ''db'')" by simp
  from import_order_matters [OF h1 h2, of "''prod''"] h1 h2 show ?thesis by simp
qed

text \<open>C31: the builder fails fast in every call: when no non-empty password is in
  the environment at the start, in the \<open>.env\<close> file, or among the caller's writes,
  no call of \<open>get_db_connection_string\<close> in the run returns a string.\<close>

theorem no_password_every_call_fails:
  "\<forall>v. environ s ''DB_PASSWORD'' = Some v \<longrightarrow> v = '''' \<Longrightarrow>
   \<forall>v. (''DB_PASSWORD'', Some v) \<in> set (dotenv_file s) \<longrightarrow> v = '''' \<Longrightarrow>
   \<forall>v. SetVar ''DB_PASSWORD'' v \<in> set evs \<longrightarrow> v = '''' \<Longrightarrow>
   ConnStringOut (Inr url) \<notin> set (snd (run s evs))"
proof (induction evs arbitrary: s)
  case Nil
  then show ?case by simp
next
  case (Cons ev evs)
  obtain s1 out where st: "step s ev = (s1, out)" by fastforce
  have o: "out \<noteq> ConnStringOut (Inr url)"
  proof (cases "ev = CallConnString")
    case True
    then have "out = ConnStringOut (get_db_connection_string (environ (import_module s)))"
      using st by (auto simp: Let_def)
    with import_module_no_password [OF Cons.prems(1,2)] show ?thesis
      by (simp add: get_db_connection_string_def)
  next
    case False
    then show ?thesis using st by (cases ev) (auto simp: Let_def)
  qed
  have "\<forall>v. environ (fst (step s ev)) ''DB_PASSWORD'' = Some v \<longrightarrow> v = ''''"
    by (rule step_keeps_no_password [OF Cons.prems(1,2)]) (use Cons.prems(3) in simp)
  then have a: "\<forall>v. environ s1 ''DB_PASSWORD'' = Some v \<longrightarrow> v = ''''"
    by (simp add: st)
  have b: "\<forall>v. (''DB_PASSWORD'', Some v) \<in> set (dotenv_file s1) \<longrightarrow> v = ''''"
    using step_dotenv_file [of s ev] Cons.prems(2) by (simp add: st)
  have c: "\<forall>v. SetVar ''DB_PASSWORD'' v \<in> set evs \<longrightarrow> v = ''''"
    using Cons.prems(3) by simp
  have "ConnStringOut (Inr url) \<notin> set (snd (run s1 evs))"
    by (rule Cons.IH [OF a b c])
  moreover have "snd (run s (ev # evs)) = out # snd (run s1 evs)"
    by (simp add: st split_def Let_def)
  ultimately show ?case using o by simp
qed

theorem no_password_every_call_fails_witness:
  "ConnStringOut (Inr ''postgresql://postgres:@db:5432/customer_behavior'')
     \<notin> set (snd (run \<lparr>environ = [''DB_PASSWORD'' \<mapsto> ''''],
                       dotenv_file = [(''DB_PASSWORD'', Some ''''), (''DB_HOST'', Some ''db'')],
                       imported = False\<rparr>
                [CallConnString, SetVar ''DB_PORT'' ''6543'', CallConnString]))"
proof -
  let ?s = "\<lparr>environ = [''DB_PASSWORD'' \<mapsto> ''''],
             dotenv_file = [(''DB_PASSWORD'', Some ''''), (''DB_HOST'', Some ''db'')], imported = False\<rparr>"
  have h1: "\<forall>v. environ ?s ''DB_PASSWORD'' = Some v \<longrightarrow> v = ''''" by simp
  have h2: "\<forall>v. (''DB_PASSWORD'', Some v) \<in> set (dotenv_file ?s) \<longrightarrow> v = ''''" by simp
  have h3: "\<forall>v. SetVar ''DB_PASSWORD'' v \<in> set [CallConnString, SetVar ''DB_PORT'' ''6543'', CallConnString]
      \<longrightarrow> v = ''''" by simp
  show ?thesis
    by (rule no_password_every_call_fails [OF h1 h2 h3])
qed

text \<open>C33: a caller can always recover: from any state of the process, setting a
  non-empty \<open>DB_PASSWORD\<close> makes the next call of \<open>get_db_connection_string\<close>
  succeed, with that password and the other fields as the import left them,
  whatever the \<open>.env\<close> file holds and whether or not the module was imported.\<close>

theorem set_password_recovers:
  "p \<noteq> '''' \<Longrightarrow>
     snd (run s [SetVar ''DB_PASSWORD'' p, CallConnString])
       = [NoOutput, ConnStringOut (Inr (connection_url
            (get_db_config ((environ (import_module s))(''DB_PASSWORD'' \<mapsto> p)))))]"
  by (simp add: Let_def import_module_set_commute get_db_connection_string_def get_db_config_def)

theorem set_password_recovers_witness:
  "''pw'' \<noteq> ''''
   \<and> snd (run \<lparr>environ = Map.empty, dotenv_file = [(''DB_PASSWORD'', Some ''''), (''DB_USERNAME'', Some ''app'')],
                imported = False\<rparr> [SetVar ''DB_PASSWORD'' ''pw'', CallConnString])
     = [NoOutput, ConnStringOut (Inr ''postgresql://app:pw@localhost:5432/customer_behavior'')]"
proof -
  let ?s = "\<lparr>environ = Map.empty, dotenv_file = [(''DB_PASSWORD'', Some ''''), (''DB_USERNAME'', Some ''app'')],
             imported = False\<rparr>"
  have h: "''pw'' \<noteq> ''''" by simp
  have "snd (run ?s [SetVar ''DB_PASSWORD'' ''pw'', CallConnString])
      = [NoOutput, ConnStringOut (Inr ''postgresql://app:pw@localhost:5432/customer_behavior'')]"
    using set_password_recovers [OF h, of ?s]
    by (simp add: import_module_environ load_dotenv_env get_db_config_def connection_url_def)
  with h show ?thesis by blast
qed

end
