(* ===== verification/DotenvFind.thy ===== *)
theory DotenvFind
  imports Environ
begin

text \<open>
  Where the module's \<open>.env\<close> file comes from. \<open>load_dotenv()\<close> is called on line 14
  of \<open>src/config/db_config.py\<close> without a path, so python-dotenv calls
  \<open>find_dotenv()\<close>. Its start directory depends on how Python runs:
  \<open>dotenv_start\<close> is the working directory \<open>os.getcwd()\<close> when \<open>usecwd\<close> is set,
  the session is interactive (a REPL or notebook, whose \<open>__main__\<close> has no
  \<open>__file__\<close>), under a debugger, or in a frozen application (the flag
  \<open>use_cwd\<close>), and otherwise the directory of the file that called it, the
  module's own directory \<open>src/config\<close>. From there it walks to the file-system
  root with \<open>_walk_to_root\<close> and returns the first \<open><directory>/.env\<close> that is a
  file, or \<open>''\<close> when there is none; an empty path reads as no entries. Paths are lists of names from the root, so the parent of a
  directory is \<open>butlast\<close> and the root is its own parent, as \<open>os.path.abspath\<close> of
  \<open>/..\<close> is \<open>/\<close>. \<open>walk_to_root\<close> keeps the library's loop with its
  \<open>last_dir\<close> variable; its termination needs a measure, since the loop stops
  only when the parent equals the current directory. The lemmas show, for either
  start, that the walk enumerates the ancestors nearest first and ends at the root,
  and that the search finds the nearest \<open>.env\<close> on that walk whenever there is
  one.
\<close>

type_synonym path = "string list"

function walk_to_root :: "path option \<Rightarrow> path \<Rightarrow> path list" where
  "walk_to_root last_dir current_dir =
     (if last_dir = Some current_dir then []
      else current_dir # walk_to_root (Some current_dir) (butlast current_dir))"
  by pat_completeness auto
termination
proof (relation "measure (\<lambda>(l, c). length c + (if l = Some c then 0 else 1))")
  fix last_dir :: "path option" and current_dir :: path
  assume "last_dir \<noteq> Some current_dir"
  then show "((Some current_dir, butlast current_dir), last_dir, current_dir)
      \<in> measure (\<lambda>(l, c). length c + (if l = Some c then 0 else 1))"
    by (cases current_dir rule: rev_cases) auto
qed simp

definition dotenv_start :: "bool \<Rightarrow> path \<Rightarrow> path \<Rightarrow> path" where
  "dotenv_start use_cwd cwd caller_dir = (if use_cwd then cwd else caller_dir)"

definition find_dotenv :: "(path \<Rightarrow> bool) \<Rightarrow> bool \<Rightarrow> path \<Rightarrow> path \<Rightarrow> path option" where
  "find_dotenv isfile use_cwd cwd caller_dir =
     map_option (\<lambda>d. d @ [''.env''])
       (find (\<lambda>d. isfile (d @ [''.env''])) (walk_to_root None (dotenv_start use_cwd cwd caller_dir)))"

definition module_dotenv_entries ::
  "(path \<rightharpoonup> dotenv_entry list) \<Rightarrow> bool \<Rightarrow> path \<Rightarrow> path \<Rightarrow> dotenv_entry list" where
  "module_dotenv_entries fs use_cwd cwd module_dir =
     (case find_dotenv (\<lambda>p. fs p \<noteq> None) use_cwd cwd module_dir of
        None \<Rightarrow> []
      | Some p \<Rightarrow> (case fs p of None \<Rightarrow> [] | Some entries \<Rightarrow> entries))"

declare walk_to_root.simps [simp del]

lemma walk_to_root_prefixes:
  "last_dir \<noteq> Some d \<Longrightarrow> walk_to_root last_dir d = rev (prefixes d)"
proof (induction last_dir d rule: walk_to_root.induct)
  case (1 last_dir d)
  show ?case
  proof (cases "d = []")
    case True
    with "1.prems" show ?thesis
      by (simp add: walk_to_root.simps [of last_dir "[]"] walk_to_root.simps [of "Some []" "[]"])
  next
    case False
    then obtain ys y where d: "d = ys @ [y]"
      by (cases d rule: rev_cases) auto
    have "walk_to_root (Some d) (butlast d) = rev (prefixes (butlast d))"
      using "1.IH" "1.prems" d by simp
    with "1.prems" d show ?thesis
      by (simp add: walk_to_root.simps [of last_dir "ys @ [y]"])
  qed
qed

lemma find_rev_prefixes_Some:
  "find P (rev (prefixes d)) = Some b \<Longrightarrow>
     prefix b d \<and> P b \<and> (\<forall>a. prefix a d \<and> P a \<longrightarrow> length a \<le> length b)"
proof (induction d rule: rev_induct)
  case Nil
  then show ?case by (auto split: if_splits)
next
  case (snoc x xs)
  then show ?case
    by (auto split: if_splits simp: prefix_snoc dest: prefix_length_le)
qed

lemma find_rev_prefixes_None:
  "find P (rev (prefixes d)) = None \<longleftrightarrow> (\<forall>a. prefix a d \<longrightarrow> \<not> P a)"
  by (auto simp: find_None_iff)

lemma find_dotenv_find:
  "find_dotenv isfile m c d =
     map_option (\<lambda>b. b @ [''.env''])
       (find (\<lambda>b. isfile (b @ [''.env''])) (rev (prefixes (dotenv_start m c d))))"
  by (simp add: find_dotenv_def walk_to_root_prefixes)

lemma walk_to_root_ancestors: "walk_to_root None d = rev (prefixes d)"
  by (simp add: walk_to_root_prefixes)

lemma find_dotenv_None_iff:
  "find_dotenv isfile m c d = None \<longleftrightarrow>
     \<not> (\<exists>a. prefix a (dotenv_start m c d) \<and> isfile (a @ [''.env'']))"
  by (auto simp: find_dotenv_find find_rev_prefixes_None)

text \<open>C23: the module reads the entries of the first ancestor of the search start,
  nearest first, that holds a \<open>.env\<close> file, and none when there is no such
  ancestor; the start is the module's directory in a script run and the working
  directory in an interactive, debugged or frozen run.\<close>

theorem module_dotenv_entries_nearest:
  "module_dotenv_entries fs m c d =
     (case filter (\<lambda>b. fs (b @ [''.env'']) \<noteq> None) (rev (prefixes (dotenv_start m c d))) of
        [] \<Rightarrow> []
      | b # _ \<Rightarrow> (case fs (b @ [''.env'']) of None \<Rightarrow> [] | Some es \<Rightarrow> es))"
  by (simp add: module_dotenv_entries_def find_dotenv_def walk_to_root_ancestors find_eq_filter_hd
           split: list.split)

text \<open>C24: the search that the module's \<open>load_dotenv()\<close> performs is the walk from
  its start directory to the root, and that walk terminates after one step per ancestor:
  \<open>length d + 1\<close> directories, the last of them the root.\<close>

theorem walk_to_root_ends_at_root:
  "length (walk_to_root None d) = Suc (length d) \<and> last (walk_to_root None d) = []
   \<and> module_dotenv_entries fs m c d =
       (case find (\<lambda>b. fs (b @ [''.env'']) \<noteq> None) (walk_to_root None (dotenv_start m c d)) of
          None \<Rightarrow> []
        | Some b \<Rightarrow> (case fs (b @ [''.env'']) of None \<Rightarrow> [] | Some es \<Rightarrow> es))"
proof (intro conjI)
  show "length (walk_to_root None d) = Suc (length d)"
    by (simp add: walk_to_root_prefixes)
  show "last (walk_to_root None d) = []"
    by (simp add: walk_to_root_prefixes last_rev prefixes_not_Nil)
  show "module_dotenv_entries fs m c d =
       (case find (\<lambda>b. fs (b @ [''.env'']) \<noteq> None) (walk_to_root None (dotenv_start m c d)) of
          None \<Rightarrow> []
        | Some b \<Rightarrow> (case fs (b @ [''.env'']) of None \<Rightarrow> [] | Some es \<Rightarrow> es))"
    by (simp add: module_dotenv_entries_def find_dotenv_def split: option.split)
qed

text \<open>C25: whenever some ancestor of the search start holds a \<open>.env\<close> file, the
  module loads a file's entries, and that file is the nearest such one.\<close>

theorem module_dotenv_nearest_found:
  "prefix a (dotenv_start m c d) \<Longrightarrow> fs (a @ [''.env'']) = Some es \<Longrightarrow>
     \<exists>b es'. prefix b (dotenv_start m c d) \<and> fs (b @ [''.env'']) = Some es'
             \<and> module_dotenv_entries fs m c d = es'
             \<and> (\<forall>a'. prefix a' (dotenv_start m c d) \<and> fs (a' @ [''.env'']) \<noteq> None
                     \<longrightarrow> length a' \<le> length b)"
proof -
  assume a: "prefix a (dotenv_start m c d)" and f: "fs (a @ [''.env'']) = Some es"
  then have "find (\<lambda>b. fs (b @ [''.env'']) \<noteq> None) (rev (prefixes (dotenv_start m c d))) \<noteq> None"
    by (auto simp: find_rev_prefixes_None)
  then obtain b where
    b: "find (\<lambda>b. fs (b @ [''.env'']) \<noteq> None) (rev (prefixes (dotenv_start m c d))) = Some b"
    by blast
  from find_rev_prefixes_Some [OF b] obtain es' where
    pb: "prefix b (dotenv_start m c d)" and fb: "fs (b @ [''.env'']) = Some es'"
    and near: "\<forall>a'. prefix a' (dotenv_start m c d) \<and> fs (a' @ [''.env'']) \<noteq> None
                 \<longrightarrow> length a' \<le> length b"
    by blast
  with b show ?thesis
    by (auto simp: module_dotenv_entries_def find_dotenv_find)
qed

theorem module_dotenv_nearest_found_witness:
  "prefix [''srv''] (dotenv_start False [''home'', ''dev''] [''srv'', ''shop'', ''src'', ''config''])
   \<and> [[''srv'', ''.env''] \<mapsto> [(''DB_HOST'', Some ''a'')],
      [''srv'', ''shop'', ''.env''] \<mapsto> [(''DB_HOST'', Some ''b'')]] [''srv'', ''.env'']
     = Some [(''DB_HOST'', Some ''a'')]
   \<and> module_dotenv_entries
       [[''srv'', ''.env''] \<mapsto> [(''DB_HOST'', Some ''a'')],
        [''srv'', ''shop'', ''.env''] \<mapsto> [(''DB_HOST'', Some ''b'')]]
       False [''home'', ''dev''] [''srv'', ''shop'', ''src'', ''config''] = [(''DB_HOST'', Some ''b'')]"
proof -
  let ?fs = "[[''srv'', ''.env''] \<mapsto> [(''DB_HOST'', Some ''a'')],
              [''srv'', ''shop'', ''.env''] \<mapsto> [(''DB_HOST'', Some ''b'')]]"
  let ?st = "dotenv_start False [''home'', ''dev''] [''srv'', ''shop'', ''src'', ''config'']"
  have st: "?st = [''srv'', ''shop'', ''src'', ''config'']" by (simp add: dotenv_start_def)
  have h1: "prefix [''srv''] ?st" by (simp add: st)
  have h2: "?fs ([''srv''] @ [''.env'']) = Some [(''DB_HOST'', Some ''a'')]" by simp
  from module_dotenv_nearest_found [of "[''srv'']" False "[''home'', ''dev'']"
      "[''srv'', ''shop'', ''src'', ''config'']" ?fs, OF h1 h2]
  obtain b es' where
    fb: "?fs (b @ [''.env'']) = Some es'"
    and mo: "module_dotenv_entries ?fs False [''home'', ''dev''] [''srv'', ''shop'', ''src'', ''config''] = es'"
    and near: "\<forall>a'. prefix a' ?st \<and> ?fs (a' @ [''.env'']) \<noteq> None \<longrightarrow> length a' \<le> length b"
    by blast
  have "prefix [''srv'', ''shop''] ?st \<and> ?fs ([''srv'', ''shop''] @ [''.env'']) \<noteq> None"
    by (simp add: st)
  with near have "length [''srv'', ''shop''] \<le> length b" by blast
  with fb have "b = [''srv'', ''shop''] \<and> es' = [(''DB_HOST'', Some ''b'')]"
    by (auto split: if_splits)
  with mo h1 show ?thesis by simp
qed

text \<open>C26: with no \<open>.env\<close> file in the search start or any of its ancestors, the
  module loads no entries: the environment is unchanged and \<open>load_dotenv\<close>
  returns \<open>False\<close>, without raising.\<close>

theorem module_dotenv_none_found:
  "\<not> (\<exists>a. prefix a (dotenv_start m c d) \<and> fs (a @ [''.env'']) \<noteq> None) \<Longrightarrow>
     module_dotenv_entries fs m c d = [] \<and> load_dotenv e (module_dotenv_entries fs m c d) = (e, False)"
proof -
  assume "\<not> (\<exists>a. prefix a (dotenv_start m c d) \<and> fs (a @ [''.env'']) \<noteq> None)"
  then have "find_dotenv (\<lambda>p. fs p \<noteq> None) m c d = None"
    by (simp add: find_dotenv_None_iff)
  then show ?thesis
    by (simp add: module_dotenv_entries_def load_dotenv_def)
qed

theorem module_dotenv_none_found_witness:
  "\<not> (\<exists>a. prefix a (dotenv_start True [''srv'', ''app''] [''srv'', ''shop'', ''src'', ''config''])
        \<and> [[''srv'', ''shop'', ''.env''] \<mapsto> [(''DB_HOST'', Some ''x'')]] (a @ [''.env'']) \<noteq> None)
   \<and> load_dotenv Map.empty (module_dotenv_entries [[''srv'', ''shop'', ''.env''] \<mapsto> [(''DB_HOST'', Some ''x'')]]
       True [''srv'', ''app''] [''srv'', ''shop'', ''src'', ''config'']) = (Map.empty, False)"
proof -
  let ?fs = "[[''srv'', ''shop'', ''.env''] \<mapsto> [(''DB_HOST'', Some ''x'')]]"
  have h: "\<not> (\<exists>a. prefix a (dotenv_start True [''srv'', ''app''] [''srv'', ''shop'', ''src'', ''config''])
        \<and> ?fs (a @ [''.env'']) \<noteq> None)"
    by (auto simp: dotenv_start_def prefix_Cons)
  show ?thesis by (rule conjI [OF h conjunct2 [OF module_dotenv_none_found [OF h]]])
qed

end
